theory Spec2Isabelle
  imports Main "HOL-Library.Sublist"
begin

text \<open>
  A model of \<^verbatim>\<open>src/index.js\<close>, the orchestration layer of the WhatsApp group
  manager: the status endpoint, the event bindings of the session client, the startup
  and shutdown sequences and the two signal handlers. A piece of the program is a
  function from the environment (the outcomes of the operations of its collaborators,
  \<^verbatim>\<open>process.env\<close>) to a run: the list of effects it has on the outside, in order, and
  the way it completes. The libraries and handler modules that the file requires are
  not part of it; what they do at a call is a parameter.
\<close>

section \<open>JavaScript values\<close>

text \<open>
  The values that \<^verbatim>\<open>src/index.js\<close> passes around: event payloads, thrown errors,
  environment strings, the port. Payloads are opaque to the program, so any shape must be
  representable: primitives and plain objects (field lists). Numbers that occur in the
  program are integers.
\<close>

datatype jsval =
    JUndefined
  | JNull
  | JBool bool
  | JNum int
  | JStr string
  | JObj "(string \<times> jsval) list"

text \<open>Truthiness, as \<^verbatim>\<open>||\<close> and \<^verbatim>\<open>if (...)\<close> test it.\<close>

fun truthy :: "jsval \<Rightarrow> bool" where
  "truthy JUndefined = False"
| "truthy JNull = False"
| "truthy (JBool b) = b"
| "truthy (JNum n) = (n \<noteq> 0)"
| "truthy (JStr s) = (s \<noteq> [])"
| "truthy (JObj fs) = True"

text \<open>\<^verbatim>\<open>a || b\<close>: the left operand when it is truthy, else the right one.\<close>

definition js_or :: "jsval \<Rightarrow> jsval \<Rightarrow> jsval" where
  "js_or a b = (if truthy a then a else b)"

text \<open>Decimal digits of a number, for template literals.\<close>

fun show_nat :: "nat \<Rightarrow> string" where
  "show_nat n =
     (if n < 10 then [char_of (48 + n)]
      else show_nat (n div 10) @ [char_of (48 + n mod 10)])"

text \<open>
  \<^verbatim>\<open>${v}\<close> in a template literal: the string conversion of \<open>v\<close>. A plain object
  converts to \<^verbatim>\<open>[object Object]\<close>. Integers are written in decimal digits, which is
  what JavaScript does below \<^verbatim>\<open>1e21\<close>.
\<close>

fun to_string :: "jsval \<Rightarrow> string" where
  "to_string JUndefined = ''undefined''"
| "to_string JNull = ''null''"
| "to_string (JBool b) = (if b then ''true'' else ''false'')"
| "to_string (JNum n) = (if n < 0 then ''-'' @ show_nat (nat (- n)) else show_nat (nat n))"
| "to_string (JStr s) = s"
| "to_string (JObj fs) = ''[object Object]''"

text \<open>The error a property read on \<^verbatim>\<open>undefined\<close> or \<^verbatim>\<open>null\<close> throws.\<close>

definition TypeError :: jsval where
  "TypeError = JObj [(''name'', JStr ''TypeError'')]"

section \<open>Effects and completions\<close>

text \<open>
  The session client object as far as the program reads it: \<^verbatim>\<open>client.info\<close>, which the
  library sets once the session is ready (\<open>JUndefined\<close> before). The manager object
  \<^verbatim>\<open>this\<close> holds the client.
\<close>

record Client =
  info :: jsval

record WhatsAppGroupManager =
  client :: Client

text \<open>
  What the program does to the outside, in the order it does it: console output and the
  calls into the collaborators (handler modules, database, HTTP server, session client,
  QR printer), each with the arguments the source passes.
\<close>

datatype effect =
    ConsoleLog "jsval list"
  | ConsoleError "jsval list"
  | QrcodeGenerate jsval
  | HandleMessage Client jsval
  | HandleNewMember Client jsval
  | HandleMemberLeave Client jsval
  | InitDatabase
  | AppListen jsval
  | ClientInitialize
  | StartScheduledTasks Client
  | ClientDestroy

text \<open>
  How a block of code ends: normally with a value, with an exception on its way out
  (a \<^verbatim>\<open>throw\<close>, or the rejection of the promise of an \<^verbatim>\<open>async\<close> function), or
  with the process gone through \<^verbatim>\<open>process.exit(n)\<close>. A run is the effects it had and
  its completion.
\<close>

datatype 'a completion = Normal 'a | Throw jsval | ProcessExit int

type_synonym 'a prog = "effect list \<times> 'a completion"

definition ret :: "'a \<Rightarrow> 'a prog" where
  "ret v = ([], Normal v)"

text \<open>Sequencing: the second block runs only when the first completes normally.\<close>

fun andThen :: "'a prog \<Rightarrow> ('a \<Rightarrow> 'b prog) \<Rightarrow> 'b prog" where
  "andThen (t, Normal v) f = (case f v of (t', c) \<Rightarrow> (t @ t', c))"
| "andThen (t, Throw e) f = (t, Throw e)"
| "andThen (t, ProcessExit n) f = (t, ProcessExit n)"

text \<open>
  \<^verbatim>\<open>try { ... } catch (error) { ... }\<close>: the handler runs on an exception, and on
  nothing else; an exit of the process is not caught.
\<close>

fun try_catch :: "'a prog \<Rightarrow> (jsval \<Rightarrow> 'a prog) \<Rightarrow> 'a prog" where
  "try_catch (t, Throw e) h = (case h e of (t', c) \<Rightarrow> (t @ t', c))"
| "try_catch (t, Normal v) h = (t, Normal v)"
| "try_catch (t, ProcessExit n) h = (t, ProcessExit n)"

definition console_log :: "jsval list \<Rightarrow> jsval prog" where
  "console_log args = ([ConsoleLog args], Normal JUndefined)"

definition console_error :: "jsval list \<Rightarrow> jsval prog" where
  "console_error args = ([ConsoleError args], Normal JUndefined)"

definition process_exit :: "int \<Rightarrow> 'a prog" where
  "process_exit n = ([], ProcessExit n)"

text \<open>
  The outcome of a collaborator's operation at a call the source awaits. By the
  collaborator contract the operation returns a promise that resolves or rejects; it may
  also return a plain value or throw before returning. \<^verbatim>\<open>await f()\<close> continues with
  the value in the first and third case and raises the error in the other two.
\<close>

datatype outcome = Returns jsval | Throws jsval | Resolves jsval | Rejects jsval

fun await_call :: "effect \<Rightarrow> outcome \<Rightarrow> jsval prog" where
  "await_call c (Returns v) = ([c], Normal v)"
| "await_call c (Throws e) = ([c], Throw e)"
| "await_call c (Resolves v) = ([c], Normal v)"
| "await_call c (Rejects e) = ([c], Throw e)"

text \<open>
  The outcome of a call the source does not await: it returns (whatever it returns is
  dropped) or throws.
\<close>

datatype sync_outcome = Returned jsval | Threw jsval

fun call :: "effect \<Rightarrow> sync_outcome \<Rightarrow> jsval prog" where
  "call c (Returned v) = ([c], Normal v)"
| "call c (Threw e) = ([c], Throw e)"

text \<open>
  \<^verbatim>\<open>o.k\<close>: a \<open>TypeError\<close> when \<open>o\<close> is \<^verbatim>\<open>undefined\<close> or \<^verbatim>\<open>null\<close>;
  otherwise the field of the object, \<^verbatim>\<open>undefined\<close> where it has no such field
  (the program reads \<^verbatim>\<open>wid\<close> and \<^verbatim>\<open>user\<close> only, which no primitive has).
\<close>

fun nullish :: "jsval \<Rightarrow> bool" where
  "nullish JUndefined = True"
| "nullish JNull = True"
| "nullish v = False"

fun field :: "jsval \<Rightarrow> string \<Rightarrow> jsval" where
  "field (JObj fs) k = (case map_of fs k of None \<Rightarrow> JUndefined | Some v \<Rightarrow> v)"
| "field v k = JUndefined"

definition get_prop :: "jsval \<Rightarrow> string \<Rightarrow> jsval prog" where
  "get_prop v k = (if nullish v then ([], Throw TypeError) else ([], Normal (field v k)))"

section \<open>The environment\<close>

text \<open>
  Everything outside \<^verbatim>\<open>src/index.js\<close> that it calls or reads: \<^verbatim>\<open>process.env\<close> and
  the outcome of each collaborator operation (on the arguments it is given).

  Opening the HTTP listener has two parts. \<open>app_listen\<close> is what the call
  \<^verbatim>\<open>app.listen(port, callback)\<close> itself does: it returns the server, or throws (on a
  port that is no port number). \<open>bind_error\<close> is what becomes of the bind after the call
  has returned: \<open>None\<close> when the server comes to listen on the port, the error when it
  cannot (the port is in use, or not permitted). The server reports that error outside
  of the call, as its \<^verbatim>\<open>error\<close> event or as the argument of the callback.
\<close>

record env =
  process_env :: "string \<Rightarrow> string option"
  initDatabase :: outcome
  app_listen :: "jsval \<Rightarrow> sync_outcome"
  bind_error :: "jsval \<Rightarrow> jsval option"
  client_initialize :: outcome
  startScheduledTasks :: "Client \<Rightarrow> sync_outcome"
  client_destroy :: outcome
  handleMessage :: "Client \<Rightarrow> jsval \<Rightarrow> outcome"
  handleNewMember :: "Client \<Rightarrow> jsval \<Rightarrow> outcome"
  handleMemberLeave :: "Client \<Rightarrow> jsval \<Rightarrow> outcome"
  qrcode_generate :: "jsval \<Rightarrow> sync_outcome"

text \<open>\<^verbatim>\<open>process.env.NAME\<close>: the string, or \<^verbatim>\<open>undefined\<close> when the variable is absent.\<close>

definition getenv :: "env \<Rightarrow> string \<Rightarrow> jsval" where
  "getenv E name = (case process_env E name of None \<Rightarrow> JUndefined | Some v \<Rightarrow> JStr v)"

text \<open>The emoji of the log lines, as their UTF-8 bytes.\<close>

definition emoji_check :: string where
  "emoji_check = [CHR 0xE2, CHR 0x9C, CHR 0x85]"

definition emoji_robot :: string where
  "emoji_robot = [CHR 0xF0, CHR 0x9F, CHR 0xA4, CHR 0x96]"

definition emoji_phone :: string where
  "emoji_phone = [CHR 0xF0, CHR 0x9F, CHR 0x93, CHR 0xB1]"

definition emoji_lock :: string where
  "emoji_lock = [CHR 0xF0, CHR 0x9F, CHR 0x94, CHR 0x90]"

definition emoji_cross :: string where
  "emoji_cross = [CHR 0xE2, CHR 0x9D, CHR 0x8C]"

definition emoji_stop :: string where
  "emoji_stop = [CHR 0xF0, CHR 0x9F, CHR 0x9B, CHR 0x91]"

definition emoji_chart :: string where
  "emoji_chart = [CHR 0xF0, CHR 0x9F, CHR 0x93, CHR 0x8A]"

definition emoji_globe :: string where
  "emoji_globe = [CHR 0xF0, CHR 0x9F, CHR 0x8C, CHR 0x90]"

section \<open>The HTTP front door: \<^verbatim>\<open>setupExpress\<close>\<close>

text \<open>
  A request as far as the application reads it (its method, its path, the content type
  it declares and its body as sent), and the response object a handler is given: a fresh
  response carries status 200 until something sets another one, and
  \<^verbatim>\<open>res.json(obj)\<close> sends \<open>obj\<close> as the JSON body under the status the response has.
\<close>

record request =
  http_method :: string
  path :: string
  content_type :: "string option"
  raw_body :: string

record response =
  statusCode :: nat
  body :: "jsval option"

definition new_response :: response where
  "new_response = \<lparr>statusCode = 200, body = None\<rparr>"

definition res_json :: "jsval \<Rightarrow> response \<Rightarrow> response" where
  "res_json obj res = res\<lparr>body := Some obj\<rparr>"

text \<open>The handler of \<^verbatim>\<open>GET /\<close> (lines 53 to 59).\<close>

definition get_root :: "WhatsAppGroupManager \<Rightarrow> request \<Rightarrow> response \<Rightarrow> response" where
  "get_root this req res =
     res_json (JObj [(''status'', JStr ''WhatsApp Group Manager Bot is running''),
                     (''version'', JStr ''1.0.0''),
                     (''dashboard'', JStr ''/dashboard'')]) res"

text \<open>
  What \<^verbatim>\<open>setupExpress\<close> registers on the application, in the order of the source:
  four middlewares mounted at the root, the dashboard router under
  \<^verbatim>\<open>/dashboard\<close>, then the route \<^verbatim>\<open>GET /\<close>. The middlewares and the router are
  collaborators; only their registration is part of this program.
\<close>

datatype middleware = helmet | cors | express_json | express_static string | dashboard

datatype layer =
    Use string middleware
  | Get string "WhatsAppGroupManager \<Rightarrow> request \<Rightarrow> response \<Rightarrow> response"

definition setupExpress :: "layer list" where
  "setupExpress =
     [Use ''/'' helmet,
      Use ''/'' cors,
      Use ''/'' express_json,
      Use ''/'' (express_static ''web/public''),
      Use ''/dashboard'' dashboard,
      Get ''/'' get_root]"

text \<open>
  What a middleware does with a request is a parameter: it passes the request on
  (\<^verbatim>\<open>next()\<close>), with the response as it leaves it, or it answers the request itself,
  and then no later layer sees the request.
\<close>

datatype mw_result = Next response | End response

type_synonym middlewares = "middleware \<Rightarrow> request \<Rightarrow> response \<Rightarrow> mw_result"

text \<open>
  A layer mounted at the root sees every request; one mounted at a path sees the
  requests for that path and for the paths under it.
\<close>

definition mounted :: "string \<Rightarrow> string \<Rightarrow> bool" where
  "mounted mp p = (mp = ''/'' \<or> p = mp \<or> prefix (mp @ ''/'') p)"

text \<open>
  The application answers a request by going through its layers in the order of their
  registration: a middleware whose mount point covers the path is run, and a route
  answers when the method and the path are its own. \<open>None\<close>: no layer of this
  application answers. (Only \<^verbatim>\<open>GET\<close> requests are routed to a \<^verbatim>\<open>Get\<close> layer here.)
\<close>

fun handle ::
  "middlewares \<Rightarrow> WhatsAppGroupManager \<Rightarrow> layer list \<Rightarrow> request \<Rightarrow> response \<Rightarrow>
     response option" where
  "handle mw this [] req res = None"
| "handle mw this (Use mp m # ls) req res =
     (if mounted mp (path req)
      then (case mw m req res of
              Next res' \<Rightarrow> handle mw this ls req res'
            | End res' \<Rightarrow> Some res')
      else handle mw this ls req res)"
| "handle mw this (Get rp h # ls) req res =
     (if http_method req = ''GET'' \<and> path req = rp
      then Some (h this req res)
      else handle mw this ls req res)"

section \<open>The event dispatcher: \<^verbatim>\<open>setupEventHandlers\<close>\<close>

text \<open>
  A listener is given the first argument of the emitted event. Its completion \<open>Throw\<close>
  means that an exception leaves the listener: thrown into the emitter by a plain
  function, the rejection of the returned promise for an \<^verbatim>\<open>async\<close> one (which nothing
  handles).
\<close>

type_synonym listener = "env \<Rightarrow> WhatsAppGroupManager \<Rightarrow> jsval \<Rightarrow> jsval prog"

definition on_qr :: listener where
  "on_qr E this qr =
     andThen (console_log [JStr ''QR Code received, scan with your WhatsApp:'']) (\<lambda>_.
     andThen (call (QrcodeGenerate qr) (qrcode_generate E qr)) (\<lambda>_.
     ret JUndefined))"

definition on_ready :: listener where
  "on_ready E this arg =
     andThen (console_log [JStr (emoji_check @ '' WhatsApp Group Manager Bot is ready!'')]) (\<lambda>_.
     andThen (console_log [JStr (emoji_robot @ '' Bot Name: '' @
                to_string (js_or (getenv E ''BOT_NAME'') (JStr ''GroupManager'')))]) (\<lambda>_.
     andThen (get_prop (info (client this)) ''wid'') (\<lambda>wid.
     andThen (get_prop wid ''user'') (\<lambda>user.
     console_log [JStr (emoji_phone @ '' Connected as: '' @ to_string user)]))))"

definition on_authenticated :: listener where
  "on_authenticated E this arg =
     console_log [JStr (emoji_lock @ '' Authentication successful!'')]"

definition on_auth_failure :: listener where
  "on_auth_failure E this msg =
     console_error [JStr (emoji_cross @ '' Authentication failed:''), msg]"

definition on_disconnected :: listener where
  "on_disconnected E this reason =
     console_log [JStr (emoji_phone @ '' Client was logged out:''), reason]"

definition on_message :: listener where
  "on_message E this message =
     try_catch
       (andThen (await_call (HandleMessage (client this) message)
                   (handleMessage E (client this) message)) (\<lambda>_.
        ret JUndefined))
       (\<lambda>error. console_error [JStr ''Error handling message:'', error])"

definition on_group_join :: listener where
  "on_group_join E this notification =
     try_catch
       (andThen (await_call (HandleNewMember (client this) notification)
                   (handleNewMember E (client this) notification)) (\<lambda>_.
        ret JUndefined))
       (\<lambda>error. console_error [JStr ''Error handling new member:'', error])"

definition on_group_leave :: listener where
  "on_group_leave E this notification =
     try_catch
       (andThen (await_call (HandleMemberLeave (client this) notification)
                   (handleMemberLeave E (client this) notification)) (\<lambda>_.
        ret JUndefined))
       (\<lambda>error. console_error [JStr ''Error handling member leave:'', error])"

text \<open>The bindings \<^verbatim>\<open>this.client.on(name, listener)\<close>, in the order of the source.\<close>

definition setupEventHandlers :: "(string \<times> listener) list" where
  "setupEventHandlers =
     [(''qr'', on_qr),
      (''ready'', on_ready),
      (''authenticated'', on_authenticated),
      (''auth_failure'', on_auth_failure),
      (''disconnected'', on_disconnected),
      (''message'', on_message),
      (''group_join'', on_group_join),
      (''group_leave'', on_group_leave)]"

text \<open>
  Emitting an event runs the listeners bound to its name, in binding order; an event
  with no listener does nothing (the emitter's own treatment of an \<^verbatim>\<open>error\<close> event
  without listener is not part of this program). The run of an emission is that of one event taken by
  itself: the effects of its listeners, in their own order, and how they complete. An
  \<^verbatim>\<open>async\<close> listener hands control back to the emitter at its \<^verbatim>\<open>await\<close>; what
  it does after that point happens once the awaited promise has settled, by which time
  the listeners of later events may have run. Nothing is said here about the order of
  effects that belong to different events.
\<close>

fun run_listeners :: "env \<Rightarrow> WhatsAppGroupManager \<Rightarrow> listener list \<Rightarrow> jsval \<Rightarrow> jsval prog" where
  "run_listeners E this [] payload = ret JUndefined"
| "run_listeners E this (l # ls) payload =
     andThen (l E this payload) (\<lambda>_. run_listeners E this ls payload)"

definition emit :: "env \<Rightarrow> WhatsAppGroupManager \<Rightarrow> string \<Rightarrow> jsval \<Rightarrow> jsval prog" where
  "emit E this name payload =
     run_listeners E this (map snd (filter (\<lambda>b. fst b = name) setupEventHandlers)) payload"

section \<open>The lifecycle controller: \<^verbatim>\<open>start\<close>, \<^verbatim>\<open>stop\<close> and the signal handlers\<close>

text \<open>The port handed to \<^verbatim>\<open>app.listen\<close>: \<^verbatim>\<open>process.env.WEB_PORT || 3000\<close>.\<close>

definition listen_port :: "env \<Rightarrow> jsval" where
  "listen_port E = js_or (getenv E ''WEB_PORT'') (JNum 3000)"

text \<open>
  The callback given to \<^verbatim>\<open>app.listen\<close>, which the server calls once it listens. It
  takes no argument: whatever the server hands to it goes unread.
\<close>

definition on_listening :: "jsval \<Rightarrow> jsval prog" where
  "on_listening port =
     andThen (console_log [JStr (emoji_globe @ '' Web dashboard running on http://localhost:'' @
                to_string port)]) (\<lambda>_.
     console_log [JStr (emoji_chart @ '' Admin dashboard: http://localhost:'' @
                to_string port @ ''/dashboard'')])"

definition start :: "env \<Rightarrow> WhatsAppGroupManager \<Rightarrow> jsval prog" where
  "start E this =
     try_catch
       (andThen (await_call InitDatabase (initDatabase E)) (\<lambda>_.
        andThen (console_log [JStr (emoji_chart @ '' Database initialized'')]) (\<lambda>_.
        andThen (call (AppListen (listen_port E)) (app_listen E (listen_port E))) (\<lambda>_.
        andThen (await_call ClientInitialize (client_initialize E)) (\<lambda>_.
        andThen (call (StartScheduledTasks (client this))
                   (startScheduledTasks E (client this))) (\<lambda>_.
        ret JUndefined))))))
       (\<lambda>error.
        andThen (console_error [JStr ''Failed to start bot:'', error]) (\<lambda>_.
        process_exit 1))"

definition stop :: "env \<Rightarrow> WhatsAppGroupManager \<Rightarrow> jsval prog" where
  "stop E this =
     try_catch
       (andThen (await_call ClientDestroy (client_destroy E)) (\<lambda>_.
        console_log [JStr (emoji_stop @ '' Bot stopped gracefully'')]))
       (\<lambda>error. console_error [JStr ''Error stopping bot:'', error])"

text \<open>
  The two signal handlers of the module (lines 148 to 162). \<^verbatim>\<open>global.bot\<close> is
  \<open>None\<close> until line 166 assigns the manager to it.
\<close>

datatype signal = SIGINT | SIGTERM

fun on_signal :: "signal \<Rightarrow> env \<Rightarrow> WhatsAppGroupManager option \<Rightarrow> jsval prog" where
  "on_signal SIGINT E global_bot =
     andThen (console_log [JStr ([CHR 0x0A] @ emoji_stop @ '' Shutting down bot...'')]) (\<lambda>_.
     andThen (case global_bot of None \<Rightarrow> ret JUndefined | Some manager \<Rightarrow> stop E manager) (\<lambda>_.
     process_exit 0))"
| "on_signal SIGTERM E global_bot =
     andThen (console_log [JStr ([CHR 0x0A] @ emoji_stop @ '' Shutting down bot...'')]) (\<lambda>_.
     andThen (case global_bot of None \<Rightarrow> ret JUndefined | Some manager \<Rightarrow> stop E manager) (\<lambda>_.
     process_exit 0))"

section \<open>Reading a run\<close>


fun is_startup_step :: "effect \<Rightarrow> bool" where
  "is_startup_step InitDatabase = True"
| "is_startup_step (AppListen p) = True"
| "is_startup_step ClientInitialize = True"
| "is_startup_step (StartScheduledTasks c) = True"
| "is_startup_step e = False"

fun is_listen :: "effect \<Rightarrow> bool" where
  "is_listen (AppListen p) = True"
| "is_listen e = False"

text \<open>The error with which an awaited operation fails, if it does.\<close>

fun failure :: "outcome \<Rightarrow> jsval option" where
  "failure (Returns v) = None"
| "failure (Throws e) = Some e"
| "failure (Resolves v) = None"
| "failure (Rejects e) = Some e"

text \<open>
  The inbound events and, for each, the call it leads to, the outcome of that call and
  the label of the line logged when the call fails.
\<close>

fun inbound :: "string \<times> jsval \<Rightarrow> bool" where
  "inbound (name, payload) =
     (name = ''message'' \<or> name = ''group_join'' \<or> name = ''group_leave'')"

definition handler_of :: "env \<Rightarrow> Client \<Rightarrow> string \<Rightarrow> jsval \<Rightarrow> effect \<times> outcome \<times> string" where
  "handler_of E c name payload =
     (if name = ''message''
        then (HandleMessage c payload, handleMessage E c payload, ''Error handling message:'')
      else if name = ''group_join''
        then (HandleNewMember c payload, handleNewMember E c payload,
              ''Error handling new member:'')
      else (HandleMemberLeave c payload, handleMemberLeave E c payload,
            ''Error handling member leave:''))"

text \<open>
  What one inbound event is expected to leave in the run: the call of its handler and,
  when that call fails, the logged error right after it.
\<close>

definition boundary_trace :: "env \<Rightarrow> WhatsAppGroupManager \<Rightarrow> string \<times> jsval \<Rightarrow> effect list" where
  "boundary_trace E this ev =
     (case handler_of E (client this) (fst ev) (snd ev) of
        (c, out, label) \<Rightarrow>
          c # (case failure out of None \<Rightarrow> [] | Some e \<Rightarrow> [ConsoleError [JStr label, e]]))"

text \<open>
  For concrete runs: an environment in which every collaborator succeeds and no variable
  is set, a manager whose client is ready, middlewares that all pass every request on,
  and middlewares of which the JSON body parser answers a request with the body
  \<^verbatim>\<open>{\<close> declared as JSON with status 400, as it does every body that is not JSON.
\<close>

definition quiet_env :: env where
  "quiet_env =
     \<lparr>process_env = (\<lambda>name. None),
      initDatabase = Resolves JUndefined,
      app_listen = (\<lambda>port. Returned JUndefined),
      bind_error = (\<lambda>port. None),
      client_initialize = Resolves JUndefined,
      startScheduledTasks = (\<lambda>c. Returned JUndefined),
      client_destroy = Resolves JUndefined,
      handleMessage = (\<lambda>c message. Resolves JUndefined),
      handleNewMember = (\<lambda>c notification. Resolves JUndefined),
      handleMemberLeave = (\<lambda>c notification. Resolves JUndefined),
      qrcode_generate = (\<lambda>qr. Returned JUndefined)\<rparr>"

definition ready_manager :: WhatsAppGroupManager where
  "ready_manager = \<lparr>client = \<lparr>info = JObj [(''wid'', JObj [(''user'', JStr ''15550001'')])]\<rparr>\<rparr>"

definition passing_middlewares :: middlewares where
  "passing_middlewares m req res = Next res"

definition parsing_middlewares :: middlewares where
  "parsing_middlewares m req res =
     (if m = express_json \<and> content_type req = Some ''application/json'' \<and> raw_body req = ''{''
      then End (res\<lparr>statusCode := 400\<rparr>)
      else Next res)"


definition db_line :: effect where
  "db_line = ConsoleLog [JStr (emoji_chart @ '' Database initialized'')]"

definition failed_to_start :: "jsval \<Rightarrow> effect" where
  "failed_to_start e = ConsoleError [JStr ''Failed to start bot:'', e]"

section \<open>The runs of \<^verbatim>\<open>stop\<close> and \<^verbatim>\<open>start\<close>\<close>

lemmas prog_defs = ret_def console_log_def console_error_def process_exit_def

text \<open>\<^verbatim>\<open>stop\<close> has two runs, by whether the teardown of the client fails.\<close>

lemma stop_cases:
  "stop E this =
     (case failure (client_destroy E) of
        None \<Rightarrow> ([ClientDestroy, ConsoleLog [JStr (emoji_stop @ '' Bot stopped gracefully'')]],
                 Normal JUndefined)
      | Some e \<Rightarrow> ([ClientDestroy, ConsoleError [JStr ''Error stopping bot:'', e]],
                 Normal JUndefined))"
  by (cases "client_destroy E") (simp_all add: stop_def prog_defs)

lemma stop_destroy_once: "count_list (fst (stop E this)) ClientDestroy = 1"
  by (simp add: stop_cases split: option.split)

text \<open>
  \<^verbatim>\<open>start\<close> has five runs: one for each step that can fail, in the order of the steps,
  and the one in which every step succeeds.
\<close>

lemma start_cases:
  "start E this =
     (case failure (initDatabase E) of
        Some e \<Rightarrow> ([InitDatabase, failed_to_start e], ProcessExit 1)
      | None \<Rightarrow>
         (case app_listen E (listen_port E) of
            Threw e \<Rightarrow>
              ([InitDatabase, db_line, AppListen (listen_port E), failed_to_start e],
               ProcessExit 1)
          | Returned v \<Rightarrow>
             (case failure (client_initialize E) of
                Some e \<Rightarrow>
                  ([InitDatabase, db_line, AppListen (listen_port E), ClientInitialize,
                    failed_to_start e], ProcessExit 1)
              | None \<Rightarrow>
                 (case startScheduledTasks E (client this) of
                    Threw e \<Rightarrow>
                      ([InitDatabase, db_line, AppListen (listen_port E), ClientInitialize,
                        StartScheduledTasks (client this), failed_to_start e], ProcessExit 1)
                  | Returned w \<Rightarrow>
                      ([InitDatabase, db_line, AppListen (listen_port E), ClientInitialize,
                        StartScheduledTasks (client this)], Normal JUndefined)))))"
  by (cases "initDatabase E"; cases "app_listen E (listen_port E)";
      cases "client_initialize E"; cases "startScheduledTasks E (client this)")
     (simp_all add: start_def prog_defs failed_to_start_def db_line_def)

section \<open>Inbound events\<close>

text \<open>
  C1. For every \<^verbatim>\<open>message\<close>, \<^verbatim>\<open>group_join\<close> or \<^verbatim>\<open>group_leave\<close> event, whatever
  its payload and whatever its handler does: the listener calls the handler of the event
  and, when that call throws or its promise rejects with \<open>e\<close>, logs \<open>e\<close> under the label
  of this very event, and it does nothing else; it completes normally, so that no
  exception reaches the emitter, the promise the listener returns is not rejected and the
  process does not exit. A listener keeps no state, so this holds of every later event
  just the same, whatever happened to the events before it.
\<close>

theorem inbound_failure_boundary:
  assumes "inbound (name, payload)"
  shows "emit E this name payload =
           (boundary_trace E this (name, payload), Normal JUndefined)"
proof -
  from assms consider "name = ''message''" | "name = ''group_join''" | "name = ''group_leave''"
    by auto
  then show ?thesis
  proof cases
    case 1
    then show ?thesis
      by (cases "handleMessage E (client this) payload")
         (simp_all add: emit_def setupEventHandlers_def on_message_def boundary_trace_def
            handler_of_def prog_defs)
  next
    case 2
    then show ?thesis
      by (cases "handleNewMember E (client this) payload")
         (simp_all add: emit_def setupEventHandlers_def on_group_join_def boundary_trace_def
            handler_of_def prog_defs)
  next
    case 3
    then show ?thesis
      by (cases "handleMemberLeave E (client this) payload")
         (simp_all add: emit_def setupEventHandlers_def on_group_leave_def boundary_trace_def
            handler_of_def prog_defs)
  qed
qed

text \<open>
  A message whose handler rejects, a leave notification whose handler throws at the
  call, and a join notification whose handler resolves.
\<close>

theorem inbound_failure_boundary_witness:
  "inbound (''message'', JStr ''hi'') \<and>
   emit (quiet_env\<lparr>handleMessage := (\<lambda>c message. Rejects (JStr ''boom''))\<rparr>) ready_manager
     ''message'' (JStr ''hi'') =
     ([HandleMessage (client ready_manager) (JStr ''hi''),
       ConsoleError [JStr ''Error handling message:'', JStr ''boom'']],
      Normal JUndefined) \<and>
   emit (quiet_env\<lparr>handleMemberLeave := (\<lambda>c notification. Throws JNull)\<rparr>) ready_manager
     ''group_leave'' (JNum 7) =
     ([HandleMemberLeave (client ready_manager) (JNum 7),
       ConsoleError [JStr ''Error handling member leave:'', JNull]],
      Normal JUndefined) \<and>
   emit quiet_env ready_manager ''group_join'' JNull =
     ([HandleNewMember (client ready_manager) JNull], Normal JUndefined)"
  using
    inbound_failure_boundary
      [where name = "''message''" and payload = "JStr ''hi''" and this = ready_manager
         and E = "quiet_env\<lparr>handleMessage := (\<lambda>c message. Rejects (JStr ''boom''))\<rparr>"]
    inbound_failure_boundary
      [where name = "''group_leave''" and payload = "JNum 7" and this = ready_manager
         and E = "quiet_env\<lparr>handleMemberLeave := (\<lambda>c notification. Throws JNull)\<rparr>"]
    inbound_failure_boundary
      [where name = "''group_join''" and payload = JNull and this = ready_manager
         and E = quiet_env]
  by (simp add: boundary_trace_def handler_of_def quiet_env_def)

section \<open>Startup\<close>

text \<open>
  The failures that \<^verbatim>\<open>start\<close> sees are those raised inside its \<^verbatim>\<open>try\<close>: database
  initialization or the initialization of the session client throwing or rejecting, and
  the call \<^verbatim>\<open>app.listen\<close> throwing (each with the steps before it done). Each of
  them is fatal: the last thing \<^verbatim>\<open>start\<close> does is log the error under
  \<^verbatim>\<open>Failed to start bot:\<close>, and the process exits with status 1.
\<close>

lemma caught_failure_is_fatal:
  assumes "failure (initDatabase E) = Some e \<or>
           (failure (initDatabase E) = None \<and> app_listen E (listen_port E) = Threw e) \<or>
           (failure (initDatabase E) = None \<and> app_listen E (listen_port E) = Returned v \<and>
            failure (client_initialize E) = Some e)"
  shows "snd (start E this) = ProcessExit 1 \<and>
         fst (start E this) \<noteq> [] \<and>
         last (fst (start E this)) = ConsoleError [JStr ''Failed to start bot:'', e]"
  using assms by (auto simp add: start_cases failed_to_start_def)

text \<open>
  A failure of the bind is not among them. \<^verbatim>\<open>start\<close> never looks at what becomes of
  the bind once \<^verbatim>\<open>app.listen\<close> has returned, and binds no listener to the
  \<^verbatim>\<open>error\<close> event of the server.
\<close>

lemma start_ignores_bind_error: "start (E\<lparr>bind_error := b\<rparr>) this = start E this"
  by (simp add: start_def listen_port_def getenv_def)


text \<open>
  C3. When database initialization fails, \<^verbatim>\<open>start\<close> does nothing but call it and log
  the error, the process exits with status 1, and \<^verbatim>\<open>app.listen\<close> is never called.
\<close>

theorem database_failure_never_binds:
  assumes "failure (initDatabase E) = Some e"
  shows "start E this =
           ([InitDatabase, ConsoleError [JStr ''Failed to start bot:'', e]], ProcessExit 1) \<and>
         filter is_listen (fst (start E this)) = []"
  using assms by (simp add: start_cases failed_to_start_def)

theorem database_failure_never_binds_witness:
  "failure (initDatabase (quiet_env\<lparr>initDatabase := Rejects (JStr ''no database'')\<rparr>))
     = Some (JStr ''no database'') \<and>
   start (quiet_env\<lparr>initDatabase := Rejects (JStr ''no database'')\<rparr>) ready_manager =
     ([InitDatabase, ConsoleError [JStr ''Failed to start bot:'', JStr ''no database'']],
      ProcessExit 1) \<and>
   filter is_listen
     (fst (start (quiet_env\<lparr>initDatabase := Rejects (JStr ''no database'')\<rparr>) ready_manager)) = []"
  using database_failure_never_binds
    [where E = "quiet_env\<lparr>initDatabase := Rejects (JStr ''no database'')\<rparr>"
       and e = "JStr ''no database''" and this = ready_manager]
  by simp

text \<open>
  C8. The steps of \<^verbatim>\<open>start\<close> are called in the order database initialization, HTTP
  listen, client initialization, scheduled tasks, and a run stops short only at the end of
  that order: the listener is opened exactly when database initialization succeeded, the
  client is initialized exactly when moreover \<^verbatim>\<open>app.listen\<close> returned, and the
  scheduled tasks are started exactly when moreover the initialization of the client
  succeeded.
\<close>

theorem start_order:
  "prefix (filter is_startup_step (fst (start E this)))
     [InitDatabase, AppListen (listen_port E), ClientInitialize,
      StartScheduledTasks (client this)] \<and>
   InitDatabase \<in> set (fst (start E this)) \<and>
   (AppListen (listen_port E) \<in> set (fst (start E this))) = (failure (initDatabase E) = None) \<and>
   (ClientInitialize \<in> set (fst (start E this))) =
     (failure (initDatabase E) = None \<and> (\<exists>v. app_listen E (listen_port E) = Returned v)) \<and>
   (StartScheduledTasks (client this) \<in> set (fst (start E this))) =
     (failure (initDatabase E) = None \<and> (\<exists>v. app_listen E (listen_port E) = Returned v) \<and>
      failure (client_initialize E) = None)"
  by (cases "initDatabase E"; cases "app_listen E (listen_port E)";
      cases "client_initialize E"; cases "startScheduledTasks E (client this)")
     (simp_all add: start_cases failed_to_start_def db_line_def)

text \<open>
  C9, as the code has it. The port handed to \<^verbatim>\<open>app.listen\<close> is the number 3000 when
  \<^verbatim>\<open>WEB_PORT\<close> is absent or the empty string, and the configured string otherwise;
  \<^verbatim>\<open>start\<close> opens the listener on that port, once, when database initialization
  succeeded.
\<close>

theorem listen_port_default:
  "listen_port E =
     (case process_env E ''WEB_PORT'' of
        None \<Rightarrow> JNum 3000
      | Some v \<Rightarrow> if v = [] then JNum 3000 else JStr v) \<and>
   filter is_listen (fst (start E this)) =
     (if failure (initDatabase E) = None then [AppListen (listen_port E)] else [])"
  by (cases "initDatabase E"; cases "app_listen E (listen_port E)";
      cases "client_initialize E"; cases "startScheduledTasks E (client this)")
     (simp_all add: start_cases failed_to_start_def db_line_def listen_port_def getenv_def
        js_or_def split: option.split)

text \<open>
  With \<^verbatim>\<open>WEB_PORT\<close> set to the empty string the variable is set, and the listener is
  opened on 3000, not on the configured value.
\<close>

theorem listen_port_counterexample:
  "process_env (quiet_env\<lparr>process_env := [''WEB_PORT'' \<mapsto> '''']\<rparr>) ''WEB_PORT'' = Some '''' \<and>
   filter is_listen
     (fst (start (quiet_env\<lparr>process_env := [''WEB_PORT'' \<mapsto> '''']\<rparr>) ready_manager))
     = [AppListen (JNum 3000)]"
  by (simp add: start_cases quiet_env_def listen_port_def getenv_def js_or_def db_line_def)

section \<open>Shutdown\<close>

text \<open>
  C5. \<^verbatim>\<open>stop\<close> always completes normally: when the teardown of the client fails with
  \<open>e\<close>, the error is logged under \<^verbatim>\<open>Error stopping bot:\<close> and goes no further.
\<close>

theorem stop_always_resolves:
  "snd (stop E this) = Normal JUndefined \<and>
   fst (stop E this) =
     (case failure (client_destroy E) of
        None \<Rightarrow> [ClientDestroy, ConsoleLog [JStr (emoji_stop @ '' Bot stopped gracefully'')]]
      | Some e \<Rightarrow> [ClientDestroy, ConsoleError [JStr ''Error stopping bot:'', e]])"
  by (simp add: stop_cases split: option.split)

text \<open>
  C10. With \<^verbatim>\<open>global.bot\<close> not assigned, either signal handler logs the shutdown line
  and exits with status 0; \<^verbatim>\<open>stop\<close> is not called (the client is not torn down).
\<close>

theorem signal_before_bot_assigned:
  "on_signal sig E None =
     ([ConsoleLog [JStr ([CHR 0x0A] @ emoji_stop @ '' Shutting down bot...'')]], ProcessExit 0) \<and>
   ClientDestroy \<notin> set (fst (on_signal sig E None))"
  by (cases sig) (simp_all add: prog_defs)

text \<open>
  C4. The handlers of \<^verbatim>\<open>SIGINT\<close> and \<^verbatim>\<open>SIGTERM\<close> do the same. A handler runs
  from the event loop, hence after the module body, which assigns \<^verbatim>\<open>global.bot\<close> at
  line 166: it finds the manager there, logs the shutdown line, runs \<^verbatim>\<open>stop\<close> once
  (the client is torn down exactly once) and then exits with status 0, whatever the
  teardown does.
\<close>

theorem signal_graceful_stop:
  "on_signal SIGINT E g = on_signal SIGTERM E g \<and>
   fst (on_signal sig E (Some this)) =
     ConsoleLog [JStr ([CHR 0x0A] @ emoji_stop @ '' Shutting down bot...'')] # fst (stop E this) \<and>
   count_list (fst (on_signal sig E (Some this))) ClientDestroy = 1 \<and>
   snd (on_signal sig E (Some this)) = ProcessExit 0"
  by (cases sig) (simp_all add: prog_defs stop_cases split: option.split)


section \<open>The status endpoint\<close>

text \<open>
  C6, as the code has it. A \<^verbatim>\<open>GET /\<close> request that the four middlewares registered
  ahead of the route pass on, the status still 200, is answered by the route: with status
  200 and a JSON object of exactly the fields \<^verbatim>\<open>status\<close>, \<^verbatim>\<open>version\<close> and
  \<^verbatim>\<open>dashboard\<close>, whatever else the request holds and whatever the state of the manager
  and its client.
\<close>

theorem get_root_when_reached:
  assumes "http_method req = ''GET''" and "path req = ''/''"
    and "mw helmet req new_response = Next r1"
    and "mw cors req r1 = Next r2"
    and "mw express_json req r2 = Next r3"
    and "mw (express_static ''web/public'') req r3 = Next r4"
    and "statusCode r4 = 200"
  shows "handle mw this setupExpress req new_response =
           Some \<lparr>statusCode = 200,
                 body = Some (JObj [(''status'', JStr ''WhatsApp Group Manager Bot is running''),
                                    (''version'', JStr ''1.0.0''),
                                    (''dashboard'', JStr ''/dashboard'')])\<rparr>"
proof -
  have "handle mw this setupExpress req new_response = Some (get_root this req r4)"
    using assms by (simp add: setupExpress_def mounted_def)
  moreover have "get_root this req r4 =
      \<lparr>statusCode = 200,
       body = Some (JObj [(''status'', JStr ''WhatsApp Group Manager Bot is running''),
                          (''version'', JStr ''1.0.0''),
                          (''dashboard'', JStr ''/dashboard'')])\<rparr>"
    using assms(7) by (cases r4) (simp add: get_root_def res_json_def)
  ultimately show ?thesis by simp
qed

text \<open>A plain \<^verbatim>\<open>GET /\<close> through middlewares that pass it on.\<close>

theorem get_root_when_reached_witness:
  "handle passing_middlewares ready_manager setupExpress
     \<lparr>http_method = ''GET'', path = ''/'', content_type = None, raw_body = []\<rparr> new_response =
     Some \<lparr>statusCode = 200,
           body = Some (JObj [(''status'', JStr ''WhatsApp Group Manager Bot is running''),
                              (''version'', JStr ''1.0.0''),
                              (''dashboard'', JStr ''/dashboard'')])\<rparr>"
  using get_root_when_reached
    [where mw = passing_middlewares and this = ready_manager
       and req = "\<lparr>http_method = ''GET'', path = ''/'', content_type = None, raw_body = []\<rparr>"
       and ?r1.0 = new_response and ?r2.0 = new_response and ?r3.0 = new_response
       and ?r4.0 = new_response]
  by (simp add: passing_middlewares_def new_response_def)

text \<open>
  A \<^verbatim>\<open>GET /\<close> that declares a JSON body and sends \<^verbatim>\<open>{\<close>: the body parser, which
  \<^verbatim>\<open>setupExpress\<close> registers ahead of the route, answers it with status 400, and the
  route is not reached.
\<close>

theorem get_root_counterexample:
  "handle parsing_middlewares ready_manager setupExpress
     \<lparr>http_method = ''GET'', path = ''/'', content_type = Some ''application/json'',
      raw_body = ''{''\<rparr> new_response =
     Some \<lparr>statusCode = 400, body = None\<rparr>"
  by (simp add: setupExpress_def mounted_def parsing_middlewares_def new_response_def)

section \<open>Lifecycle events\<close>



end
